theory Spec2Isabelle
  imports Main
begin

section \<open>The Sequential-model guide: layers, shapes and summaries\<close>

text \<open>
  The guide builds stacks of layers with \<open>keras.Sequential\<close> and prints
  \<open>model.summary()\<close>. A layer is written as the guide's snippets construct it:
  \<open>layers.Dense(units, activation=...)\<close>,
  \<open>layers.Conv2D(filters, kernel_size, strides=..., activation=...)\<close>,
  \<open>layers.MaxPooling2D(pool_size)\<close> and \<open>layers.GlobalMaxPooling2D()\<close>.
  A convolution written without \<open>strides\<close> has stride 1 and a Dense layer
  written without \<open>activation\<close> is linear, the framework's defaults. A shape is a tuple of dimensions whose batch dimension may be unknown
  (printed \<open>None\<close> in the summaries).
\<close>

datatype activation = Linear | Relu

datatype layer =
    Dense nat activation
  | Conv2D nat nat nat activation
  | MaxPooling2D nat
  | GlobalMaxPooling2D

type_synonym shape = "nat option list"

text \<open>
  Modelled from the spec: the framework's rules for output shapes and parameter
  counts are not code of the repository; only their results are displayed in the
  guide. These are the standard formulas for the size of a layer's output and the
  number of its parameters: a Dense layer with input dimension \<open>n\<close> and \<open>m\<close> units has
  \<open>n * m + m\<close> parameters; a Conv2D layer with a \<open>k\<close> by \<open>k\<close> kernel, \<open>c\<close> input
  channels and \<open>f\<close> filters has \<open>k * k * c * f + f\<close>; a convolution with kernel \<open>k\<close>
  and stride \<open>s\<close> maps a spatial size \<open>n\<close> to \<open>(n - k) div s + 1\<close>, and a pooling
  of size \<open>p\<close> maps it to \<open>n div p\<close>.
\<close>

definition dense_params :: "nat \<Rightarrow> nat \<Rightarrow> nat" where
  "dense_params n m = n * m + m"

definition conv2d_params :: "nat \<Rightarrow> nat \<Rightarrow> nat \<Rightarrow> nat" where
  "conv2d_params k c f = k * k * c * f + f"

definition conv_out :: "nat \<Rightarrow> nat \<Rightarrow> nat \<Rightarrow> nat" where
  "conv_out n k s = (n - k) div s + 1"

definition pool_out :: "nat \<Rightarrow> nat \<Rightarrow> nat" where
  "pool_out n p = n div p"

text \<open>
  Modelled from the spec: the framework's shape inference and parameter counting,
  by the formulas above, for one layer on an input shape. A layer
  applied to a shape it cannot take (wrong rank, unknown feature dimension, a
  window larger than the image) has no result: the framework raises there.
\<close>

fun compute_output_shape :: "layer \<Rightarrow> shape \<Rightarrow> shape option" where
  "compute_output_shape (Dense m a) [b, Some n] = Some [b, Some m]"
| "compute_output_shape (Conv2D f k s a) [b, Some h, Some w, Some c] =
     (if 0 < k \<and> 0 < s \<and> k \<le> h \<and> k \<le> w
      then Some [b, Some (conv_out h k s), Some (conv_out w k s), Some f]
      else None)"
| "compute_output_shape (MaxPooling2D p) [b, Some h, Some w, Some c] =
     (if 0 < p \<and> p \<le> h \<and> p \<le> w
      then Some [b, Some (pool_out h p), Some (pool_out w p), Some c]
      else None)"
| "compute_output_shape GlobalMaxPooling2D [b, Some h, Some w, Some c] = Some [b, Some c]"
| "compute_output_shape l sh = None"

fun count_params :: "layer \<Rightarrow> shape \<Rightarrow> nat option" where
  "count_params (Dense m a) [b, Some n] = Some (dense_params n m)"
| "count_params (Conv2D f k s a) [b, Some h, Some w, Some c] = Some (conv2d_params k c f)"
| "count_params (MaxPooling2D p) [b, Some h, Some w, Some c] = Some 0"
| "count_params GlobalMaxPooling2D [b, Some h, Some w, Some c] = Some 0"
| "count_params l sh = None"

text \<open>
  Modelled from the spec: the rows of the framework's \<open>model.summary()\<close>, as the
  guide's tables lay them out: for each layer, in order, its output shape and
  its parameter count, each layer taking the previous layer's output shape.
\<close>

fun summary_rows :: "shape \<Rightarrow> layer list \<Rightarrow> (shape \<times> nat) list option" where
  "summary_rows sh [] = Some []"
| "summary_rows sh (l # ls) =
     (case (compute_output_shape l sh, count_params l sh) of
        (Some sh', Some n) \<Rightarrow>
          (case summary_rows sh' ls of
             Some rows \<Rightarrow> Some ((sh', n) # rows)
           | None \<Rightarrow> None)
      | _ \<Rightarrow> None)"

definition total_params :: "(shape \<times> nat) list \<Rightarrow> nat" where
  "total_params rows = sum_list (map snd rows)"

subsection \<open>The layer stacks of the guide's snippets and the tables it displays\<close>

text \<open>
  The Dense stack of the section on input shapes, called on \<open>ops.ones((1, 4))\<close>,
  and the summary table the guide displays for it (output shape and Param # per
  row, then Total params).
\<close>

definition dense_stack :: "layer list" where
  "dense_stack = [Dense 2 Relu, Dense 3 Relu, Dense 4 Linear]"

definition dense_stack_displayed :: "(shape \<times> nat) list" where
  "dense_stack_displayed =
     [([Some 1, Some 2], 10), ([Some 1, Some 3], 9), ([Some 1, Some 4], 16)]"

text \<open>
  The model started with \<open>keras.Input(shape=(4,))\<close> followed by one Dense layer,
  and its displayed summary.
\<close>

definition input_dense_stack :: "layer list" where
  "input_dense_stack = [Dense 2 Relu]"

definition input_dense_displayed :: "(shape \<times> nat) list" where
  "input_dense_displayed = [([None, Some 2], 10)]"

text \<open>
  The convolution stack of the debugging workflow on \<open>keras.Input(shape=(250, 250, 3))\<close>:
  the layers added before the first \<open>summary()\<close>, those added before the second, and
  the two displayed tables.
\<close>

definition conv_stack_first :: "layer list" where
  "conv_stack_first = [Conv2D 32 5 2 Relu, Conv2D 32 3 1 Relu, MaxPooling2D 3]"

definition conv_stack_second :: "layer list" where
  "conv_stack_second = conv_stack_first @
     [Conv2D 32 3 1 Relu, Conv2D 32 3 1 Relu, MaxPooling2D 3,
      Conv2D 32 3 1 Relu, Conv2D 32 3 1 Relu, MaxPooling2D 2]"

definition conv_first_displayed :: "(shape \<times> nat) list" where
  "conv_first_displayed =
     [([None, Some 123, Some 123, Some 32], 2432),
      ([None, Some 121, Some 121, Some 32], 9248),
      ([None, Some 40, Some 40, Some 32], 0)]"

definition conv_second_displayed :: "(shape \<times> nat) list" where
  "conv_second_displayed = conv_first_displayed @
     [([None, Some 38, Some 38, Some 32], 9248),
      ([None, Some 36, Some 36, Some 32], 9248),
      ([None, Some 12, Some 12, Some 32], 0),
      ([None, Some 10, Some 10, Some 32], 9248),
      ([None, Some 8, Some 8, Some 32], 9248),
      ([None, Some 4, Some 4, Some 32], 0)]"

section \<open>The custom training step guide: stateless steps over explicit state\<close>

text \<open>
  The notebook defines three variants of \<open>class CustomModel(keras.Model)\<close>. Their
  methods call into the framework (\<open>self.stateless_call\<close>, \<open>self.compute_loss\<close>,
  \<open>jax.value_and_grad\<close>, \<open>self.optimizer.stateless_apply\<close>, a metric's
  \<open>stateless_update_state\<close> and \<open>stateless_result\<close>); the framework's code is
  not part of the repository, so these calls are parameters of the model.

  A call is an action on the state of the Python objects (the model object and
  whatever the framework keeps): it takes that state and gives back the state it
  leaves, with either the exception raised or the value returned. Exceptions are
  never caught in the notebook, so sequencing stops at the first one.
\<close>

text \<open>
  The exceptions the snippets of the two guides can end with: Python's own, for a
  local or global name that is not bound, for a method a value does not have and
  for a tuple unpacked into the wrong number of names, and whatever the framework
  raises.
\<close>

datatype error =
    UnboundLocalError string
  | NameError string
  | AttributeError string
  | ValueError string
  | FrameworkError string

type_synonym ('s, 'a) action = "'s \<Rightarrow> (error + 'a) \<times> 's"

definition act_return :: "'a \<Rightarrow> ('s, 'a) action" where
  "act_return v = (\<lambda>s. (Inr v, s))"

definition act_raise :: "error \<Rightarrow> ('s, 'a) action" where
  "act_raise e = (\<lambda>s. (Inl e, s))"

definition act_bind :: "('s, 'a) action \<Rightarrow> ('a \<Rightarrow> ('s, 'b) action) \<Rightarrow> ('s, 'b) action" where
  "act_bind a f = (\<lambda>s. case a s of (Inl e, s') \<Rightarrow> (Inl e, s') | (Inr v, s') \<Rightarrow> f v s')"

text \<open>
  A metric object: its name, its variables (only their number is read), and its
  two stateless methods. \<open>stateless_update_state\<close> is called with the metric's
  variables and either the loss or \<open>y, y_pred\<close>: the positional arguments after
  the variables are a list.
\<close>

record ('s, 't, 'r) metric =
  metric_name :: string
  variables :: "'t list"
  stateless_update_state :: "'t list \<Rightarrow> 't list \<Rightarrow> ('s, 't list) action"
  stateless_result :: "'t list \<Rightarrow> ('s, 'r) action"

text \<open>
  What the methods read of \<open>self\<close>: \<open>self.stateless_call(trainable_variables,
  non_trainable_variables, x, training=...)\<close>, \<open>self.compute_loss(x, y, y_pred)\<close>,
  \<open>self.optimizer.stateless_apply(optimizer_variables, grads, trainable_variables)\<close>
  and the list \<open>self.metrics\<close>.
\<close>

record ('s, 't, 'r) keras_model =
  stateless_call :: "'t list \<Rightarrow> 't list \<Rightarrow> 't \<Rightarrow> bool \<Rightarrow> ('s, 't \<times> 't list) action"
  compute_loss :: "'t \<Rightarrow> 't \<Rightarrow> 't \<Rightarrow> ('s, 't) action"
  optimizer_stateless_apply :: "'t list \<Rightarrow> 't list \<Rightarrow> 't list \<Rightarrow> ('s, 't list \<times> 't list) action"
  metrics :: "('s, 't, 'r) metric list"

text \<open>
  The lower-level variant's \<open>__init__\<close> adds three attributes to the model:
  \<open>self.loss_tracker\<close>, \<open>self.mae_metric\<close> and \<open>self.loss_fn\<close>.
\<close>

record ('s, 't, 'r) lower_level_model = "('s, 't, 'r) keras_model" +
  loss_tracker :: "('s, 't, 'r) metric"
  mae_metric :: "('s, 't, 'r) metric"
  loss_fn :: "'t \<Rightarrow> 't \<Rightarrow> ('s, 't) action"

text \<open>
  \<open>jax.value_and_grad(f, has_aux=True)\<close> takes a function returning
  \<open>(loss, aux)\<close> and gives a function of the same arguments returning
  \<open>((loss, aux), grads)\<close>.
\<close>

type_synonym ('s, 't) loss_and_updates =
  "'t list \<Rightarrow> 't list \<Rightarrow> 't \<Rightarrow> 't \<Rightarrow> bool \<Rightarrow> ('s, 't \<times> ('t \<times> 't list)) action"

type_synonym ('s, 't) grad_fn =
  "'t list \<Rightarrow> 't list \<Rightarrow> 't \<Rightarrow> 't \<Rightarrow> bool \<Rightarrow> ('s, ('t \<times> ('t \<times> 't list)) \<times> 't list) action"

type_synonym ('s, 't) value_and_grad = "('s, 't) loss_and_updates \<Rightarrow> ('s, 't) grad_fn"

text \<open>Python's \<open>xs[a:b]\<close> for non-negative \<open>a\<close> and \<open>b\<close>: never an error, clipped to the list.\<close>

definition slice :: "'a list \<Rightarrow> nat \<Rightarrow> nat \<Rightarrow> 'a list" where
  "slice xs a b = take (b - a) (drop a xs)"

subsection \<open>The first example\<close>

definition compute_loss_and_updates ::
  "('s, 't, 'r, 'z) keras_model_scheme \<Rightarrow> ('s, 't) loss_and_updates" where
  "compute_loss_and_updates self trainable_variables non_trainable_variables x y training =
     act_bind (stateless_call self trainable_variables non_trainable_variables x training)
       (\<lambda>(y_pred, non_trainable_variables).
     act_bind (compute_loss self x y y_pred)
       (\<lambda>loss.
     act_return (loss, (y_pred, non_trainable_variables))))"

text \<open>
  The body of \<open>for metric in self.metrics\<close>, on the loop's two variables
  \<open>logs\<close> (unbound before the first iteration) and \<open>new_metrics_vars\<close>.
\<close>

definition update_metric ::
  "('s, 't, 'r) metric \<Rightarrow> 't list \<Rightarrow> 't \<Rightarrow> 't \<Rightarrow> 't \<Rightarrow> 'r option \<times> 't list
     \<Rightarrow> ('s, 'r option \<times> 't list) action" where
  "update_metric metric metrics_variables loss y y_pred acc =
     (case acc of (logs, new_metrics_vars) \<Rightarrow>
        let this_metric_vars =
              slice metrics_variables (length new_metrics_vars)
                (length new_metrics_vars + length (variables metric))
        in
        act_bind
          (if metric_name metric = ''loss''
           then stateless_update_state metric this_metric_vars [loss]
           else stateless_update_state metric this_metric_vars [y, y_pred])
          (\<lambda>this_metric_vars.
        act_bind (stateless_result metric this_metric_vars)
          (\<lambda>logs.
        act_return (Some logs, new_metrics_vars @ this_metric_vars))))"

fun update_metrics ::
  "('s, 't, 'r) metric list \<Rightarrow> 't list \<Rightarrow> 't \<Rightarrow> 't \<Rightarrow> 't \<Rightarrow> 'r option \<times> 't list
     \<Rightarrow> ('s, 'r option \<times> 't list) action" where
  "update_metrics [] metrics_variables loss y y_pred acc = act_return acc"
| "update_metrics (metric # rest) metrics_variables loss y y_pred acc =
     act_bind (update_metric metric metrics_variables loss y y_pred acc)
       (update_metrics rest metrics_variables loss y y_pred)"

text \<open>
  \<open>return logs, state\<close>: with an empty \<open>self.metrics\<close> the name \<open>logs\<close> was
  never assigned and Python raises \<open>UnboundLocalError\<close>.
\<close>

definition return_logs :: "'r option \<Rightarrow> 'st \<Rightarrow> ('s, 'r \<times> 'st) action" where
  "return_logs logs state =
     (case logs of
        None \<Rightarrow> act_raise (UnboundLocalError ''logs'')
      | Some l \<Rightarrow> act_return (l, state))"

definition train_step ::
  "('s, 't) value_and_grad \<Rightarrow> ('s, 't, 'r, 'z) keras_model_scheme
     \<Rightarrow> 't list \<times> 't list \<times> 't list \<times> 't list \<Rightarrow> 't \<times> 't
     \<Rightarrow> ('s, 'r \<times> ('t list \<times> 't list \<times> 't list \<times> 't list)) action" where
  "train_step value_and_grad self state data =
     (case state of
        (trainable_variables, non_trainable_variables, optimizer_variables, metrics_variables) \<Rightarrow>
     (case data of (x, y) \<Rightarrow>
        act_bind
          (value_and_grad (compute_loss_and_updates self)
             trainable_variables non_trainable_variables x y True)
          (\<lambda>((loss, (y_pred, non_trainable_variables)), grads).
        act_bind
          (optimizer_stateless_apply self optimizer_variables grads trainable_variables)
          (\<lambda>(trainable_variables, optimizer_variables).
        act_bind
          (update_metrics (metrics self) metrics_variables loss y y_pred (None, []))
          (\<lambda>(logs, new_metrics_vars).
        return_logs logs
          (trainable_variables, non_trainable_variables, optimizer_variables,
           new_metrics_vars))))))"

subsection \<open>The lower-level example\<close>

definition compute_loss_and_updates_lower ::
  "('s, 't, 'r) lower_level_model \<Rightarrow> ('s, 't) loss_and_updates" where
  "compute_loss_and_updates_lower self trainable_variables non_trainable_variables x y training =
     act_bind (stateless_call self trainable_variables non_trainable_variables x training)
       (\<lambda>(y_pred, non_trainable_variables).
     act_bind (loss_fn self y y_pred)
       (\<lambda>loss.
     act_return (loss, (y_pred, non_trainable_variables))))"

definition train_step_lower ::
  "('s, 't) value_and_grad \<Rightarrow> ('s, 't, 'r) lower_level_model
     \<Rightarrow> 't list \<times> 't list \<times> 't list \<times> 't list \<Rightarrow> 't \<times> 't
     \<Rightarrow> ('s, (string \<rightharpoonup> 'r) \<times> ('t list \<times> 't list \<times> 't list \<times> 't list)) action" where
  "train_step_lower value_and_grad self state data =
     (case state of
        (trainable_variables, non_trainable_variables, optimizer_variables, metrics_variables) \<Rightarrow>
     (case data of (x, y) \<Rightarrow>
        act_bind
          (value_and_grad (compute_loss_and_updates_lower self)
             trainable_variables non_trainable_variables x y True)
          (\<lambda>((loss, (y_pred, non_trainable_variables)), grads).
        act_bind
          (optimizer_stateless_apply self optimizer_variables grads trainable_variables)
          (\<lambda>(trainable_variables, optimizer_variables).
        act_bind
          (stateless_update_state (loss_tracker self)
             (take (length (variables (loss_tracker self))) metrics_variables) [loss])
          (\<lambda>loss_tracker_vars.
        act_bind
          (stateless_update_state (mae_metric self)
             (drop (length (variables (loss_tracker self))) metrics_variables) [y, y_pred])
          (\<lambda>mae_metric_vars.
        act_bind (stateless_result (loss_tracker self) loss_tracker_vars)
          (\<lambda>loss_result.
        act_bind (stateless_result (mae_metric self) mae_metric_vars)
          (\<lambda>mae_result.
        act_return
          ((Map.empty(metric_name (loss_tracker self) \<mapsto> loss_result))
              (metric_name (mae_metric self) \<mapsto> mae_result),
           (trainable_variables, non_trainable_variables, optimizer_variables,
            loss_tracker_vars @ mae_metric_vars))))))))))"

text \<open>The lower-level variant's \<open>metrics\<close> property.\<close>

definition metrics_lower :: "('s, 't, 'r) lower_level_model \<Rightarrow> ('s, 't, 'r) metric list" where
  "metrics_lower self = [loss_tracker self, mae_metric self]"

subsection \<open>The evaluation step\<close>

definition test_step ::
  "('s, 't, 'r, 'z) keras_model_scheme \<Rightarrow> 't list \<times> 't list \<times> 't list \<Rightarrow> 't \<times> 't
     \<Rightarrow> ('s, 'r \<times> ('t list \<times> 't list \<times> 't list)) action" where
  "test_step self state data =
     (case data of (x, y) \<Rightarrow>
     (case state of (trainable_variables, non_trainable_variables, metrics_variables) \<Rightarrow>
        act_bind (stateless_call self trainable_variables non_trainable_variables x False)
          (\<lambda>(y_pred, non_trainable_variables).
        act_bind (compute_loss self x y y_pred)
          (\<lambda>loss.
        act_bind
          (update_metrics (metrics self) metrics_variables loss y y_pred (None, []))
          (\<lambda>(logs, new_metrics_vars).
        return_logs logs
          (trainable_variables, non_trainable_variables, new_metrics_vars))))))"

subsection \<open>The state tuple as Python passes it\<close>




subsection \<open>Properties of the framework's calls\<close>






text \<open>
  A metric's update keeps the number of variables when it returns as many as it was
  given.
\<close>

definition keeps_length :: "('s, 't, 'r) metric \<Rightarrow> bool" where
  "keeps_length metric =
     (\<forall>vs args s u s'. stateless_update_state metric vs args s = (Inr u, s')
        \<longrightarrow> length u = length vs)"

definition variables_total :: "('s, 't, 'r) metric list \<Rightarrow> nat" where
  "variables_total ms = sum_list (map (\<lambda>metric. length (variables metric)) ms)"

subsection \<open>A small concrete framework for evaluating the steps\<close>

text \<open>
  Stand-ins for the framework over integer tensors, used to run the steps on
  explicit inputs. The state of the Python objects is a natural number that no
  call changes. \<open>mean_metric\<close> keeps a total and a count as \<open>keras.metrics.Mean\<close>
  does, \<open>mean_absolute_error\<close> accumulates \<open>|y - y_pred|\<close>; the model is linear
  with a squared-error loss, the optimizer subtracts the gradients and counts its
  steps, and the stand-in for \<open>jax.value_and_grad\<close> reports a gradient of 1 for
  every trainable variable.
\<close>

definition mean_metric :: "string \<Rightarrow> (nat, int, int) metric" where
  "mean_metric n =
     \<lparr> metric_name = n,
       variables = [0, 0],
       stateless_update_state = (\<lambda>vs args.
          case (vs, args) of
            ([tot, cnt], [v]) \<Rightarrow> act_return [tot + v, cnt + 1]
          | _ \<Rightarrow> act_raise (FrameworkError ''Mean'')),
       stateless_result = (\<lambda>vs.
          case vs of
            [tot, cnt] \<Rightarrow> act_return (if cnt = 0 then 0 else tot div cnt)
          | _ \<Rightarrow> act_raise (FrameworkError ''Mean'')) \<rparr>"

definition mean_absolute_error :: "string \<Rightarrow> (nat, int, int) metric" where
  "mean_absolute_error n =
     \<lparr> metric_name = n,
       variables = [0, 0],
       stateless_update_state = (\<lambda>vs args.
          case (vs, args) of
            ([tot, cnt], [y, y_pred]) \<Rightarrow> act_return [tot + \<bar>y - y_pred\<bar>, cnt + 1]
          | _ \<Rightarrow> act_raise (FrameworkError ''MeanAbsoluteError'')),
       stateless_result = (\<lambda>vs.
          case vs of
            [tot, cnt] \<Rightarrow> act_return (if cnt = 0 then 0 else tot div cnt)
          | _ \<Rightarrow> act_raise (FrameworkError ''MeanAbsoluteError'')) \<rparr>"

definition linear_model :: "(nat, int, int) metric list \<Rightarrow> (nat, int, int) keras_model" where
  "linear_model ms =
     \<lparr> stateless_call = (\<lambda>tv ntv x training.
          case tv of
            [w, b] \<Rightarrow> act_return (w * x + b, ntv)
          | _ \<Rightarrow> act_raise (FrameworkError ''Dense'')),
       compute_loss = (\<lambda>x y y_pred. act_return ((y - y_pred) * (y - y_pred))),
       optimizer_stateless_apply = (\<lambda>ov grads tv.
          if length grads = length tv
          then act_return (map (\<lambda>(v, g). v - g) (zip tv grads), map (\<lambda>v. v + 1) ov)
          else act_raise (FrameworkError ''optimizer'')),
       metrics = ms \<rparr>"

definition lower_level_linear_model :: "(nat, int, int) lower_level_model" where
  "lower_level_linear_model =
     keras_model.extend (linear_model [])
       (lower_level_model.fields (mean_metric ''loss'') (mean_absolute_error ''mae'')
          (\<lambda>y y_pred. act_return ((y - y_pred) * (y - y_pred))))"

definition unit_gradients :: "(nat, int) value_and_grad" where
  "unit_gradients f tv ntv x y training =
     act_bind (f tv ntv x y training) (\<lambda>r. act_return (r, map (\<lambda>v. 1) tv))"

section \<open>The Sequential-model guide: the snippets as notebook cells\<close>

subsection \<open>Calling a stack of layers\<close>

text \<open>Sequencing of fallible steps: the first exception ends the computation.\<close>

definition and_then :: "error + 'a \<Rightarrow> ('a \<Rightarrow> error + 'b) \<Rightarrow> error + 'b" where
  "and_then r f = (case r of Inl e \<Rightarrow> Inl e | Inr v \<Rightarrow> f v)"

text \<open>
  Modelled from the spec: \<open>keras.Sequential.__call__\<close> is code of the framework and
  not of the repository. The guide describes a Sequential model as a plain stack of
  layers, each with exactly one input tensor and one output tensor, that behaves
  very much like a list of layers: calling the model passes the input through the
  layers in list order, each layer receiving the output of the one before. A layer
  is anything that can be called on a tensor and returns a tensor or raises.
\<close>

fun sequential_call :: "('t \<Rightarrow> error + 't) list \<Rightarrow> 't \<Rightarrow> error + 't" where
  "sequential_call [] x = Inr x"
| "sequential_call (layer # rest) x =
     (case layer x of Inl e \<Rightarrow> Inl e | Inr outputs \<Rightarrow> sequential_call rest outputs)"

text \<open>
  The guide's second snippet, \<open>y = layer3(layer2(layer1(x)))\<close>: Python evaluates the
  innermost call first.
\<close>

definition call_three_layers ::
  "('t \<Rightarrow> error + 't) \<Rightarrow> ('t \<Rightarrow> error + 't) \<Rightarrow> ('t \<Rightarrow> error + 't) \<Rightarrow> 't \<Rightarrow> error + 't" where
  "call_three_layers layer1 layer2 layer3 x =
     and_then (and_then (layer1 x) layer2) layer3"

text \<open>
  The left-to-right composition of a list of layers: the composition of the layers
  before the last, followed by the last.
\<close>

definition then_layer ::
  "('t \<Rightarrow> error + 't) \<Rightarrow> ('t \<Rightarrow> error + 't) \<Rightarrow> 't \<Rightarrow> error + 't" where
  "then_layer f layer = (\<lambda>x. and_then (f x) layer)"

definition compose_layers :: "('t \<Rightarrow> error + 't) list \<Rightarrow> 't \<Rightarrow> error + 't" where
  "compose_layers ls = foldl then_layer Inr ls"

subsection \<open>The framework's objects, as the guide describes them\<close>



text \<open>
  Modelled from the spec: a layer called on a tensor of a given shape returns a
  tensor of the layer's output shape, or the framework raises.
\<close>

definition layer_on_shape :: "layer \<Rightarrow> shape \<Rightarrow> error + shape" where
  "layer_on_shape l sh =
     (case compute_output_shape l sh of
        None \<Rightarrow> Inl (FrameworkError ''incompatible input shape'')
      | Some sh' \<Rightarrow> Inr sh')"











subsection \<open>The namespace of the notebook and the cells\<close>






























section \<open>Theorems\<close>

lemma conv_stack_first_rows:
  "summary_rows [None, Some 250, Some 250, Some 3] conv_stack_first = Some conv_first_displayed"
  by (simp add: conv_stack_first_def conv_first_displayed_def conv_out_def pool_out_def
      conv2d_params_def)

lemma conv_stack_second_rows:
  "summary_rows [None, Some 250, Some 250, Some 3] conv_stack_second = Some conv_second_displayed"
  by (simp add: conv_stack_second_def conv_stack_first_def conv_second_displayed_def
      conv_first_displayed_def conv_out_def pool_out_def conv2d_params_def)

lemma dense_stack_rows:
  "summary_rows [Some 1, Some 4] dense_stack = Some dense_stack_displayed"
  by (simp add: dense_stack_def dense_stack_displayed_def dense_params_def)

lemma input_dense_rows:
  "summary_rows [None, Some 4] input_dense_stack = Some input_dense_displayed"
  by (simp add: input_dense_stack_def input_dense_displayed_def dense_params_def)

text \<open>
  C9. The parameter counts and output shapes displayed in the guide's summaries are
  the ones the standard formulas give for the snippets' layer stacks, and the
  displayed totals are the sums of the rows: 10, 9, 16 and 35 for the Dense stack on
  an input of dimension 4; 2,432 and 9,248 for the convolutions, 0 for the poolings,
  totals 11,680 and 48,672; and the shape after the first three layers on a
  250 x 250 x 3 input is (40, 40, 32).
\<close>

theorem summaries_follow_formulas:
  "summary_rows [Some 1, Some 4] dense_stack = Some dense_stack_displayed
   \<and> total_params dense_stack_displayed = 35
   \<and> summary_rows [None, Some 4] input_dense_stack = Some input_dense_displayed
   \<and> total_params input_dense_displayed = 10
   \<and> summary_rows [None, Some 250, Some 250, Some 3] conv_stack_first = Some conv_first_displayed
   \<and> total_params conv_first_displayed = 11680
   \<and> summary_rows [None, Some 250, Some 250, Some 3] conv_stack_second = Some conv_second_displayed
   \<and> total_params conv_second_displayed = 48672
   \<and> map_option (map fst) (summary_rows [None, Some 250, Some 250, Some 3] conv_stack_first)
       = Some [[None, Some 123, Some 123, Some 32], [None, Some 121, Some 121, Some 32],
               [None, Some 40, Some 40, Some 32]]
   \<and> dense_params 4 2 = 10 \<and> dense_params 2 3 = 9 \<and> dense_params 3 4 = 16
   \<and> conv2d_params 5 3 32 = 2432 \<and> conv2d_params 3 32 32 = 9248
   \<and> conv_out 250 5 2 = 123 \<and> conv_out 123 3 1 = 121 \<and> pool_out 121 3 = 40"
  unfolding dense_stack_rows input_dense_rows conv_stack_first_rows conv_stack_second_rows
  by (simp add: total_params_def dense_stack_displayed_def input_dense_displayed_def
      conv_first_displayed_def conv_second_displayed_def dense_params_def conv2d_params_def
      conv_out_def pool_out_def)

subsection \<open>Sequencing of calls\<close>

lemma act_bind_Inr_iff:
  "act_bind a f s = (Inr r, s') \<longleftrightarrow> (\<exists>v s1. a s = (Inr v, s1) \<and> f v s1 = (Inr r, s'))"
  by (auto simp: act_bind_def split: prod.splits sum.splits)


lemma act_return_iff: "act_return v s = (r, s') \<longleftrightarrow> r = Inr v \<and> s' = s"
  by (auto simp: act_return_def)

lemma act_raise_iff: "act_raise e s = (r, s') \<longleftrightarrow> r = Inl e \<and> s' = s"
  by (auto simp: act_raise_def)

lemma act_bind_assoc: "act_bind (act_bind a f) g = act_bind a (\<lambda>v. act_bind (f v) g)"
  by (rule ext) (simp add: act_bind_def split: prod.splits sum.splits)

lemma act_bind_return_left: "act_bind (act_return v) f = f v"
  by (rule ext) (simp add: act_bind_def act_return_def)

lemma act_bind_return_right: "act_bind a act_return = a"
  by (rule ext) (simp add: act_bind_def act_return_def split: prod.splits sum.splits)

lemma update_metrics_Nil: "update_metrics [] mv loss y y_pred = act_return"
  by (rule ext) simp

lemma update_metrics_append:
  "update_metrics (ms @ ms') mv loss y y_pred acc =
     act_bind (update_metrics ms mv loss y y_pred acc) (update_metrics ms' mv loss y y_pred)"
proof (induction ms arbitrary: acc)
  case Nil
  show ?case by (simp add: act_bind_return_left)
next
  case (Cons m ms)
  have "update_metrics (ms @ ms') mv loss y y_pred =
          (\<lambda>v. act_bind (update_metrics ms mv loss y y_pred v) (update_metrics ms' mv loss y y_pred))"
    by (rule ext) (rule Cons.IH)
  then show ?case by (simp add: act_bind_assoc)
qed

lemma update_metrics_snoc:
  "update_metrics (ms @ [m]) mv loss y y_pred acc =
     act_bind (update_metrics ms mv loss y y_pred acc) (update_metric m mv loss y y_pred)"
proof -
  have "update_metrics [m] mv loss y y_pred = update_metric m mv loss y y_pred"
    by (rule ext) (simp add: update_metrics_Nil act_bind_return_right)
  then show ?thesis by (simp add: update_metrics_append)
qed





lemma return_logs_Inr_iff:
  "return_logs lg st s = (Inr (logs, st'), s') \<longleftrightarrow> lg = Some logs \<and> st' = st \<and> s' = s"
  by (auto simp: return_logs_def act_raise_def act_return_def split: option.splits)


lemma update_metric_Inr_iff:
  "update_metric m mv loss y y_pred (lg, new) s = (Inr (lg', new'), s') \<longleftrightarrow>
     (\<exists>u s1 r.
        stateless_update_state m
          (slice mv (length new) (length new + length (variables m)))
          (if metric_name m = ''loss'' then [loss] else [y, y_pred]) s = (Inr u, s1)
        \<and> stateless_result m u s1 = (Inr r, s')
        \<and> lg' = Some r \<and> new' = new @ u)"
  by (cases "metric_name m = ''loss''")
     (auto simp: update_metric_def Let_def act_bind_Inr_iff act_return_iff)


lemma update_metrics_length:
  assumes "list_all keeps_length ms"
      and "length new + variables_total ms \<le> length mv"
      and "update_metrics ms mv loss y y_pred (lg, new) s = (Inr (lg', new'), s')"
  shows "length new' = length new + variables_total ms"
  using assms
proof (induction ms arbitrary: lg new s)
  case Nil
  then show ?case by (simp add: act_return_iff variables_total_def)
next
  case (Cons m ms)
  from Cons.prems(3) obtain lg1 new1 s1 where
    step: "update_metric m mv loss y y_pred (lg, new) s = (Inr (lg1, new1), s1)" and
    rest: "update_metrics ms mv loss y y_pred (lg1, new1) s1 = (Inr (lg', new'), s')"
    by (auto simp: act_bind_Inr_iff)
  from step obtain u s2 where
    u: "stateless_update_state m
          (slice mv (length new) (length new + length (variables m)))
          (if metric_name m = ''loss'' then [loss] else [y, y_pred]) s = (Inr u, s2)"
       "new1 = new @ u"
    unfolding update_metric_Inr_iff by blast
  from Cons.prems(1) have "keeps_length m" by simp
  with u(1) have "length u = length (slice mv (length new) (length new + length (variables m)))"
    unfolding keeps_length_def by blast
  moreover from Cons.prems(2) have "length new + length (variables m) \<le> length mv"
    by (simp add: variables_total_def)
  ultimately have lu: "length u = length (variables m)"
    by (simp add: slice_def)
  have "length new1 + variables_total ms \<le> length mv"
    using Cons.prems(2) lu u(2) by (simp add: variables_total_def)
  moreover from Cons.prems(1) have "list_all keeps_length ms" by simp
  ultimately have "length new' = length new1 + variables_total ms"
    using Cons.IH rest by blast
  with lu u(2) show ?case by (simp add: variables_total_def)
qed

lemma update_metrics_slices:
  "update_metrics ms mv loss y y_pred (lg, new) s = (Inr (lg', new'), s') \<Longrightarrow>
     \<exists>us. length us = length ms \<and> new' = new @ concat us
        \<and> (\<forall>i<length ms. \<exists>s1 s2.
              stateless_update_state (ms ! i)
                (slice mv (length new + length (concat (take i us)))
                   (length new + length (concat (take i us)) + length (variables (ms ! i))))
                (if metric_name (ms ! i) = ''loss'' then [loss] else [y, y_pred]) s1
              = (Inr (us ! i), s2))"
proof (induction ms arbitrary: lg new s)
  case Nil
  then show ?case by (simp add: act_return_iff)
next
  case (Cons m ms)
  from Cons.prems obtain lg1 new1 s1 where
    step: "update_metric m mv loss y y_pred (lg, new) s = (Inr (lg1, new1), s1)" and
    rest: "update_metrics ms mv loss y y_pred (lg1, new1) s1 = (Inr (lg', new'), s')"
    by (auto simp: act_bind_Inr_iff)
  from step obtain u s2 where
    u: "stateless_update_state m
          (slice mv (length new) (length new + length (variables m)))
          (if metric_name m = ''loss'' then [loss] else [y, y_pred]) s = (Inr u, s2)"
       "new1 = new @ u"
    unfolding update_metric_Inr_iff by blast
  from Cons.IH[OF rest] obtain us where
    len: "length us = length ms" and cat: "new' = new1 @ concat us" and
    each: "\<And>i. i < length ms \<Longrightarrow> \<exists>s1 s2.
              stateless_update_state (ms ! i)
                (slice mv (length new1 + length (concat (take i us)))
                   (length new1 + length (concat (take i us)) + length (variables (ms ! i))))
                (if metric_name (ms ! i) = ''loss'' then [loss] else [y, y_pred]) s1
              = (Inr (us ! i), s2)"
    by blast
  have "\<exists>s1 s2.
          stateless_update_state ((m # ms) ! i)
            (slice mv (length new + length (concat (take i (u # us))))
               (length new + length (concat (take i (u # us)))
                  + length (variables ((m # ms) ! i))))
            (if metric_name ((m # ms) ! i) = ''loss'' then [loss] else [y, y_pred]) s1
          = (Inr ((u # us) ! i), s2)"
    if i: "i < length (m # ms)" for i
  proof (cases i)
    case 0
    show ?thesis
      unfolding 0 by (intro exI[of _ s] exI[of _ s2]) (simp add: u(1))
  next
    case (Suc j)
    with i have "j < length ms" by simp
    from each[OF this] Suc u(2) show ?thesis by (simp add: add.assoc)
  qed
  moreover have "length (u # us) = length (m # ms)" using len by simp
  moreover have "new' = new @ concat (u # us)" using cat u(2) by simp
  ultimately show ?case by blast
qed

lemma update_metrics_last:
  assumes "update_metrics (ms @ [m]) mv loss y y_pred (None, []) s = (Inr (lg', new'), s')"
  shows "\<exists>us u s1 s2 r.
           length us = length ms
         \<and> (\<forall>i<length ms. \<exists>s3 s4.
               stateless_update_state (ms ! i)
                 (slice mv (length (concat (take i us)))
                    (length (concat (take i us)) + length (variables (ms ! i))))
                 (if metric_name (ms ! i) = ''loss'' then [loss] else [y, y_pred]) s3
               = (Inr (us ! i), s4))
         \<and> stateless_update_state m
               (slice mv (length (concat us)) (length (concat us) + length (variables m)))
               (if metric_name m = ''loss'' then [loss] else [y, y_pred]) s1 = (Inr u, s2)
         \<and> stateless_result m u s2 = (Inr r, s')
         \<and> lg' = Some r \<and> new' = concat us @ u"
proof -
  from assms obtain lg1 new1 s1 where
    front: "update_metrics ms mv loss y y_pred (None, []) s = (Inr (lg1, new1), s1)" and
    step: "update_metric m mv loss y y_pred (lg1, new1) s1 = (Inr (lg', new'), s')"
    unfolding update_metrics_snoc by (auto simp: act_bind_Inr_iff)
  from update_metrics_slices[OF front] obtain us where
    len: "length us = length ms" and new1: "new1 = concat us" and
    each: "\<forall>i<length ms. \<exists>s3 s4.
             stateless_update_state (ms ! i)
               (slice mv (length (concat (take i us)))
                  (length (concat (take i us)) + length (variables (ms ! i))))
               (if metric_name (ms ! i) = ''loss'' then [loss] else [y, y_pred]) s3
             = (Inr (us ! i), s4)"
    by auto
  from step obtain u s2 r where
    "stateless_update_state m
       (slice mv (length new1) (length new1 + length (variables m)))
       (if metric_name m = ''loss'' then [loss] else [y, y_pred]) s1 = (Inr u, s2)"
    "stateless_result m u s2 = (Inr r, s')" "lg' = Some r" "new' = new1 @ u"
    unfolding update_metric_Inr_iff by blast
  with len each have
    "length us = length ms
     \<and> (\<forall>i<length ms. \<exists>s3 s4.
           stateless_update_state (ms ! i)
             (slice mv (length (concat (take i us)))
                (length (concat (take i us)) + length (variables (ms ! i))))
             (if metric_name (ms ! i) = ''loss'' then [loss] else [y, y_pred]) s3
           = (Inr (us ! i), s4))
     \<and> stateless_update_state m
           (slice mv (length (concat us)) (length (concat us) + length (variables m)))
           (if metric_name m = ''loss'' then [loss] else [y, y_pred]) s1 = (Inr u, s2)
     \<and> stateless_result m u s2 = (Inr r, s')
     \<and> lg' = Some r \<and> new' = concat us @ u"
    unfolding new1 by simp
  then show ?thesis by blast
qed

lemma train_step_Inr_iff:
  "train_step vg self (tv, ntv, ov, mv) (x, y) s = (Inr (logs, tv', ntv', ov', new_mv), s') \<longleftrightarrow>
     (\<exists>loss y_pred grads s1 s2.
        vg (compute_loss_and_updates self) tv ntv x y True s
          = (Inr ((loss, (y_pred, ntv')), grads), s1)
        \<and> optimizer_stateless_apply self ov grads tv s1 = (Inr (tv', ov'), s2)
        \<and> update_metrics (metrics self) mv loss y y_pred (None, []) s2
            = (Inr (Some logs, new_mv), s'))"
  by (auto simp: train_step_def act_bind_Inr_iff return_logs_Inr_iff)

lemma test_step_Inr_iff:
  "test_step self (tv, ntv, mv) (x, y) s = (Inr (logs, tv', ntv', new_mv), s') \<longleftrightarrow>
     tv' = tv \<and>
     (\<exists>loss y_pred s1 s2.
        stateless_call self tv ntv x False s = (Inr (y_pred, ntv'), s1)
        \<and> compute_loss self x y y_pred s1 = (Inr loss, s2)
        \<and> update_metrics (metrics self) mv loss y y_pred (None, []) s2
            = (Inr (Some logs, new_mv), s'))"
  by (auto simp: test_step_def act_bind_Inr_iff return_logs_Inr_iff)

subsection \<open>The metric loop of the first training step and of the evaluation step\<close>

lemma keeps_length_mean_metric: "keeps_length (mean_metric n)"
  by (auto simp: keeps_length_def mean_metric_def act_return_def act_raise_def split: list.splits)

lemma keeps_length_mean_absolute_error: "keeps_length (mean_absolute_error n)"
  by (auto simp: keeps_length_def mean_absolute_error_def act_return_def act_raise_def
      split: list.splits)

lemma metric_loop_outcome:
  assumes "metrics self = ms @ [m]"
      and "update_metrics (metrics self) mv loss y y_pred (None, []) s2
             = (Inr (Some logs, new_mv), s')"
  shows "(\<exists>us u s1 s2.
            length us = length ms
          \<and> (\<forall>i<length ms. \<exists>s3 s4.
                stateless_update_state (ms ! i)
                  (slice mv (length (concat (take i us)))
                     (length (concat (take i us)) + length (variables (ms ! i))))
                  (if metric_name (ms ! i) = ''loss'' then [loss] else [y, y_pred]) s3
                = (Inr (us ! i), s4))
          \<and> stateless_update_state m
                (slice mv (length (concat us)) (length (concat us) + length (variables m)))
                (if metric_name m = ''loss'' then [loss] else [y, y_pred]) s1 = (Inr u, s2)
          \<and> stateless_result m u s2 = (Inr logs, s')
          \<and> new_mv = concat us @ u)
       \<and> (list_all keeps_length (metrics self) \<and> variables_total (metrics self) = length mv
            \<longrightarrow> length new_mv = length mv)"
proof
  from assms have "update_metrics (ms @ [m]) mv loss y y_pred (None, []) s2
                     = (Inr (Some logs, new_mv), s')"
    by simp
  from update_metrics_last[OF this]
  show "\<exists>us u s1 s2.
            length us = length ms
          \<and> (\<forall>i<length ms. \<exists>s3 s4.
                stateless_update_state (ms ! i)
                  (slice mv (length (concat (take i us)))
                     (length (concat (take i us)) + length (variables (ms ! i))))
                  (if metric_name (ms ! i) = ''loss'' then [loss] else [y, y_pred]) s3
                = (Inr (us ! i), s4))
          \<and> stateless_update_state m
                (slice mv (length (concat us)) (length (concat us) + length (variables m)))
                (if metric_name m = ''loss'' then [loss] else [y, y_pred]) s1 = (Inr u, s2)
          \<and> stateless_result m u s2 = (Inr logs, s')
          \<and> new_mv = concat us @ u"
    by simp
next
  show "list_all keeps_length (metrics self) \<and> variables_total (metrics self) = length mv
          \<longrightarrow> length new_mv = length mv"
  proof
    assume h: "list_all keeps_length (metrics self) \<and> variables_total (metrics self) = length mv"
    from update_metrics_length[of "metrics self" "[]" mv loss y y_pred None s2 "Some logs"
        new_mv s'] h assms(2)
    show "length new_mv = length mv" by simp
  qed
qed

text \<open>
  C10 (as amended). In the first \<open>train_step\<close> and in \<open>test_step\<close>, when
  \<open>self.metrics\<close> ends with the metric \<open>m\<close> and the step returns, the logs it
  returns are what \<open>m.stateless_result\<close> returned, in the final iteration of the
  loop, on \<open>m\<close>'s own updated variables; results of earlier metrics are not in
  them. \<open>new_metrics_vars\<close> is the concatenation, in order, of every metric's
  updated variables, each being what that metric's \<open>stateless_update_state\<close>
  returned on its slice of \<open>metrics_variables\<close> (the slice that starts where the
  updated variables of the metrics before it end and is \<open>len(metric.variables)\<close>
  long) and on the step's loss, for a metric named \<open>loss\<close>, or the step's
  \<open>y, y_pred\<close>. Its length is the length of the incoming \<open>metrics_variables\<close>
  when every metric's update returns as many variables as it is given and
  \<open>metrics_variables\<close> holds exactly as many entries as the metrics have variables.
\<close>

theorem logs_of_last_metric_and_concatenated_vars:
  assumes "metrics self = ms @ [m]"
  shows
    "(train_step vg self (tv, ntv, ov, mv) (x, y) s = (Inr (logs, tv', ntv', ov', new_mv), s') \<longrightarrow>
        (\<exists>loss y_pred grads s0.
            vg (compute_loss_and_updates self) tv ntv x y True s
              = (Inr ((loss, (y_pred, ntv')), grads), s0)
          \<and> (\<exists>us u s1 s2.
                length us = length ms
              \<and> (\<forall>i<length ms. \<exists>s3 s4.
                    stateless_update_state (ms ! i)
                      (slice mv (length (concat (take i us)))
                         (length (concat (take i us)) + length (variables (ms ! i))))
                      (if metric_name (ms ! i) = ''loss'' then [loss] else [y, y_pred]) s3
                    = (Inr (us ! i), s4))
              \<and> stateless_update_state m
                    (slice mv (length (concat us)) (length (concat us) + length (variables m)))
                    (if metric_name m = ''loss'' then [loss] else [y, y_pred]) s1 = (Inr u, s2)
              \<and> stateless_result m u s2 = (Inr logs, s')
              \<and> new_mv = concat us @ u))
        \<and> (list_all keeps_length (metrics self) \<and> variables_total (metrics self) = length mv
             \<longrightarrow> length new_mv = length mv))
   \<and> (test_step self (tv, ntv, mv) (x, y) t = (Inr (eval_logs, eval_tv, eval_ntv, eval_mv), t') \<longrightarrow>
        (\<exists>loss y_pred t0 t1.
            stateless_call self tv ntv x False t = (Inr (y_pred, eval_ntv), t0)
          \<and> compute_loss self x y y_pred t0 = (Inr loss, t1)
          \<and> (\<exists>us u s1 s2.
                length us = length ms
              \<and> (\<forall>i<length ms. \<exists>s3 s4.
                    stateless_update_state (ms ! i)
                      (slice mv (length (concat (take i us)))
                         (length (concat (take i us)) + length (variables (ms ! i))))
                      (if metric_name (ms ! i) = ''loss'' then [loss] else [y, y_pred]) s3
                    = (Inr (us ! i), s4))
              \<and> stateless_update_state m
                    (slice mv (length (concat us)) (length (concat us) + length (variables m)))
                    (if metric_name m = ''loss'' then [loss] else [y, y_pred]) s1 = (Inr u, s2)
              \<and> stateless_result m u s2 = (Inr eval_logs, t')
              \<and> eval_mv = concat us @ u))
        \<and> (list_all keeps_length (metrics self) \<and> variables_total (metrics self) = length mv
             \<longrightarrow> length eval_mv = length mv))"
proof (intro conjI impI)
  assume "train_step vg self (tv, ntv, ov, mv) (x, y) s = (Inr (logs, tv', ntv', ov', new_mv), s')"
  then obtain loss y_pred grads s0 s2 where
    g: "vg (compute_loss_and_updates self) tv ntv x y True s
          = (Inr ((loss, (y_pred, ntv')), grads), s0)" and
    l: "update_metrics (metrics self) mv loss y y_pred (None, []) s2
          = (Inr (Some logs, new_mv), s')"
    unfolding train_step_Inr_iff by blast
  note o = metric_loop_outcome[OF assms l]
  from g conjunct1[OF o]
  show "\<exists>loss y_pred grads s0.
            vg (compute_loss_and_updates self) tv ntv x y True s
              = (Inr ((loss, (y_pred, ntv')), grads), s0)
          \<and> (\<exists>us u s1 s2.
                length us = length ms
              \<and> (\<forall>i<length ms. \<exists>s3 s4.
                    stateless_update_state (ms ! i)
                      (slice mv (length (concat (take i us)))
                         (length (concat (take i us)) + length (variables (ms ! i))))
                      (if metric_name (ms ! i) = ''loss'' then [loss] else [y, y_pred]) s3
                    = (Inr (us ! i), s4))
              \<and> stateless_update_state m
                    (slice mv (length (concat us)) (length (concat us) + length (variables m)))
                    (if metric_name m = ''loss'' then [loss] else [y, y_pred]) s1 = (Inr u, s2)
              \<and> stateless_result m u s2 = (Inr logs, s')
              \<and> new_mv = concat us @ u)"
    by blast
  from conjunct2[OF o]
  show "length new_mv = length mv"
    if "list_all keeps_length (metrics self) \<and> variables_total (metrics self) = length mv"
    using that by blast
next
  assume "test_step self (tv, ntv, mv) (x, y) t = (Inr (eval_logs, eval_tv, eval_ntv, eval_mv), t')"
  then obtain loss y_pred t0 t1 where
    c: "stateless_call self tv ntv x False t = (Inr (y_pred, eval_ntv), t0)" and
    k: "compute_loss self x y y_pred t0 = (Inr loss, t1)" and
    l: "update_metrics (metrics self) mv loss y y_pred (None, []) t1
          = (Inr (Some eval_logs, eval_mv), t')"
    unfolding test_step_Inr_iff by blast
  note o = metric_loop_outcome[OF assms l]
  from c k conjunct1[OF o]
  show "\<exists>loss y_pred t0 t1.
            stateless_call self tv ntv x False t = (Inr (y_pred, eval_ntv), t0)
          \<and> compute_loss self x y y_pred t0 = (Inr loss, t1)
          \<and> (\<exists>us u s1 s2.
                length us = length ms
              \<and> (\<forall>i<length ms. \<exists>s3 s4.
                    stateless_update_state (ms ! i)
                      (slice mv (length (concat (take i us)))
                         (length (concat (take i us)) + length (variables (ms ! i))))
                      (if metric_name (ms ! i) = ''loss'' then [loss] else [y, y_pred]) s3
                    = (Inr (us ! i), s4))
              \<and> stateless_update_state m
                    (slice mv (length (concat us)) (length (concat us) + length (variables m)))
                    (if metric_name m = ''loss'' then [loss] else [y, y_pred]) s1 = (Inr u, s2)
              \<and> stateless_result m u s2 = (Inr eval_logs, t')
              \<and> eval_mv = concat us @ u)"
    by blast
  from conjunct2[OF o]
  show "length eval_mv = length mv"
    if "list_all keeps_length (metrics self) \<and> variables_total (metrics self) = length mv"
    using that by blast
qed

lemma two_metrics_train_step_on_distinct_vars:
  "train_step unit_gradients (linear_model [mean_metric ''loss'', mean_absolute_error ''mae''])
       ([2, 1], [], [0], [10, 1, 20, 2]) (3, 10) 0
     = (Inr (7, [1, 0], [], [1], [19, 2, 23, 3]), 0)"
  by code_simp

lemma two_metrics_test_step_on_distinct_vars:
  "test_step (linear_model [mean_metric ''loss'', mean_absolute_error ''mae''])
       ([2, 1], [], [10, 1, 20, 2]) (3, 10) 0
     = (Inr (7, [2, 1], [], [19, 2, 23, 3]), 0)"
  by code_simp

text \<open>
  The theorem above at the two-metric model, on metric variables that tell the
  slices apart: the loss metric turns \<open>[10, 1]\<close> into \<open>[19, 2]\<close>, the mean absolute
  error turns \<open>[20, 2]\<close> into \<open>[23, 3]\<close>, and the logs are the mean absolute
  error's result 7, not the loss metric's 9.
\<close>

theorem logs_of_last_metric_and_concatenated_vars_witness:
  "metrics (linear_model [mean_metric ''loss'', mean_absolute_error ''mae''])
     = [mean_metric ''loss''] @ [mean_absolute_error ''mae'']
   \<and> train_step unit_gradients (linear_model [mean_metric ''loss'', mean_absolute_error ''mae''])
       ([2, 1], [], [0], [10, 1, 20, 2]) (3, 10) 0
     = (Inr (7, [1, 0], [], [1], [19, 2, 23, 3]), 0)
   \<and> test_step (linear_model [mean_metric ''loss'', mean_absolute_error ''mae''])
       ([2, 1], [], [10, 1, 20, 2]) (3, 10) 0
     = (Inr (7, [2, 1], [], [19, 2, 23, 3]), 0)
   \<and> list_all keeps_length (metrics (linear_model [mean_metric ''loss'', mean_absolute_error ''mae'']))
   \<and> variables_total (metrics (linear_model [mean_metric ''loss'', mean_absolute_error ''mae'']))
       = length [10, 1, 20, 2 :: int]
   \<and> (\<exists>loss y_pred grads s0.
          unit_gradients
            (compute_loss_and_updates
               (linear_model [mean_metric ''loss'', mean_absolute_error ''mae'']))
            [2, 1] [] 3 10 True 0 = (Inr ((loss, (y_pred, [])), grads), s0)
        \<and> (\<exists>us u s1 s2.
              length us = length [mean_metric ''loss'']
            \<and> (\<forall>i<length [mean_metric ''loss'']. \<exists>s3 s4.
                  stateless_update_state ([mean_metric ''loss''] ! i)
                    (slice [10, 1, 20, 2] (length (concat (take i us)))
                       (length (concat (take i us))
                        + length (variables ([mean_metric ''loss''] ! i))))
                    (if metric_name ([mean_metric ''loss''] ! i) = ''loss''
                     then [loss] else [10, y_pred]) s3
                  = (Inr (us ! i), s4))
            \<and> stateless_update_state (mean_absolute_error ''mae'')
                  (slice [10, 1, 20, 2] (length (concat us))
                     (length (concat us) + length (variables (mean_absolute_error ''mae''))))
                  (if metric_name (mean_absolute_error ''mae'') = ''loss''
                   then [loss] else [10, y_pred]) s1 = (Inr u, s2)
            \<and> stateless_result (mean_absolute_error ''mae'') u s2 = (Inr 7, 0)
            \<and> [19, 2, 23, 3] = concat us @ u))
   \<and> (\<exists>loss y_pred t0 t1.
          stateless_call (linear_model [mean_metric ''loss'', mean_absolute_error ''mae''])
            [2, 1] [] 3 False 0 = (Inr (y_pred, []), t0)
        \<and> compute_loss (linear_model [mean_metric ''loss'', mean_absolute_error ''mae''])
            3 10 y_pred t0 = (Inr loss, t1)
        \<and> (\<exists>us u s1 s2.
              length us = length [mean_metric ''loss'']
            \<and> (\<forall>i<length [mean_metric ''loss'']. \<exists>s3 s4.
                  stateless_update_state ([mean_metric ''loss''] ! i)
                    (slice [10, 1, 20, 2] (length (concat (take i us)))
                       (length (concat (take i us))
                        + length (variables ([mean_metric ''loss''] ! i))))
                    (if metric_name ([mean_metric ''loss''] ! i) = ''loss''
                     then [loss] else [10, y_pred]) s3
                  = (Inr (us ! i), s4))
            \<and> stateless_update_state (mean_absolute_error ''mae'')
                  (slice [10, 1, 20, 2] (length (concat us))
                     (length (concat us) + length (variables (mean_absolute_error ''mae''))))
                  (if metric_name (mean_absolute_error ''mae'') = ''loss''
                   then [loss] else [10, y_pred]) s1 = (Inr u, s2)
            \<and> stateless_result (mean_absolute_error ''mae'') u s2 = (Inr 7, 0)
            \<and> [19, 2, 23, 3] = concat us @ u))
   \<and> length [19, 2, 23, 3 :: int] = length [10, 1, 20, 2 :: int]
   \<and> slice [10, 1, 20, 2 :: int] 0 2 = [10, 1] \<and> slice [10, 1, 20, 2 :: int] 2 4 = [20, 2]"
proof -
  let ?self = "linear_model [mean_metric ''loss'', mean_absolute_error ''mae'']"
  have m: "metrics ?self = [mean_metric ''loss''] @ [mean_absolute_error ''mae'']"
    by (simp add: linear_model_def)
  note tr = two_metrics_train_step_on_distinct_vars
  note te = two_metrics_test_step_on_distinct_vars
  have k: "list_all keeps_length (metrics ?self)"
    by (simp add: linear_model_def keeps_length_mean_metric keeps_length_mean_absolute_error)
  have v: "variables_total (metrics ?self) = length [10, 1, 20, 2 :: int]"
    by (simp add: variables_total_def linear_model_def mean_metric_def mean_absolute_error_def)
  note t = logs_of_last_metric_and_concatenated_vars[OF m,
      where vg = unit_gradients and tv = "[2, 1]" and ntv = "[]" and ov = "[0]"
        and mv = "[10, 1, 20, 2]" and x = 3 and y = 10 and s = 0 and logs = 7
        and tv' = "[1, 0]" and ntv' = "[]" and ov' = "[1]" and new_mv = "[19, 2, 23, 3]"
        and s' = 0 and t = 0 and eval_logs = 7 and eval_tv = "[2, 1]" and eval_ntv = "[]"
        and eval_mv = "[19, 2, 23, 3]" and t' = 0]
  have sl: "slice [10, 1, 20, 2 :: int] 0 2 = [10, 1]" "slice [10, 1, 20, 2 :: int] 2 4 = [20, 2]"
    by (simp_all add: slice_def)
  show ?thesis
    by (intro conjI m tr te k v sl
        conjunct1[OF mp[OF conjunct1[OF t] tr]]
        conjunct1[OF mp[OF conjunct2[OF t] te]]) simp
qed

text \<open>
  C10 as stated fails where \<open>metrics_variables\<close> has an entry that no metric
  claims: with the single metric \<open>loss\<close> (two variables) and three incoming
  entries, the loop's slice takes two of them and \<open>new_metrics_vars\<close> has length
  2, not 3.
\<close>

theorem new_metrics_vars_length_counterexample:
  "metrics (linear_model [mean_metric ''loss'']) = [] @ [mean_metric ''loss'']
   \<and> train_step unit_gradients (linear_model [mean_metric ''loss''])
       ([2, 1], [], [0], [0, 0, 9]) (3, 10) 0
     = (Inr (9, [1, 0], [], [1], [9, 1]), 0)
   \<and> length [9, 1 :: int] \<noteq> length [0, 0, 9 :: int]"
proof -
  have "train_step unit_gradients (linear_model [mean_metric ''loss''])
       ([2, 1], [], [0], [0, 0, 9]) (3, 10) 0
     = (Inr (9, [1, 0], [], [1], [9, 1]), 0)"
    by code_simp
  then show ?thesis by (simp add: linear_model_def)
qed

subsection \<open>Gradients and optimizer updates\<close>

lemma train_step_lower_Inr_iff:
  "train_step_lower vg self (tv, ntv, ov, mv) (x, y) s = (Inr (logs, tv', ntv', ov', new_mv), s') \<longleftrightarrow>
     (\<exists>loss y_pred grads s1 s2 u1 s3 u2 s4 r1 s5 r2.
        vg (compute_loss_and_updates_lower self) tv ntv x y True s
          = (Inr ((loss, (y_pred, ntv')), grads), s1)
        \<and> optimizer_stateless_apply self ov grads tv s1 = (Inr (tv', ov'), s2)
        \<and> stateless_update_state (loss_tracker self)
             (take (length (variables (loss_tracker self))) mv) [loss] s2 = (Inr u1, s3)
        \<and> stateless_update_state (mae_metric self)
             (drop (length (variables (loss_tracker self))) mv) [y, y_pred] s3 = (Inr u2, s4)
        \<and> stateless_result (loss_tracker self) u1 s4 = (Inr r1, s5)
        \<and> stateless_result (mae_metric self) u2 s5 = (Inr r2, s')
        \<and> logs = (Map.empty(metric_name (loss_tracker self) \<mapsto> r1))
                    (metric_name (mae_metric self) \<mapsto> r2)
        \<and> new_mv = u1 @ u2)"
  by (auto simp: train_step_lower_def act_bind_Inr_iff act_return_iff)

text \<open>
  C8. In both training steps, whenever the step returns, the trainable variables
  and the optimizer variables of the state it returns are exactly the pair that
  \<open>self.optimizer.stateless_apply\<close> returned, called on the incoming optimizer and
  trainable variables and on the gradients that \<open>jax.value_and_grad\<close>, applied to
  the step's loss function, returned; the notebook computes no gradient and no
  update of its own.
\<close>

theorem gradients_and_updates_come_from_the_framework:
  "(train_step vg self (tv, ntv, ov, mv) (x, y) s = (Inr (logs, tv', ntv', ov', new_mv), s') \<longrightarrow>
      (\<exists>loss y_pred grads s1 s2.
          vg (compute_loss_and_updates self) tv ntv x y True s
            = (Inr ((loss, (y_pred, ntv')), grads), s1)
        \<and> optimizer_stateless_apply self ov grads tv s1 = (Inr (tv', ov'), s2)))
   \<and> (train_step_lower vg self_lower (tv, ntv, ov, mv) (x, y) s
         = (Inr (logs_lower, tv', ntv', ov', new_mv), s') \<longrightarrow>
      (\<exists>loss y_pred grads s1 s2.
          vg (compute_loss_and_updates_lower self_lower) tv ntv x y True s
            = (Inr ((loss, (y_pred, ntv')), grads), s1)
        \<and> optimizer_stateless_apply self_lower ov grads tv s1 = (Inr (tv', ov'), s2)))"
  unfolding train_step_Inr_iff train_step_lower_Inr_iff by blast

lemma lower_logs:
  "train_step_lower unit_gradients lower_level_linear_model
      ([2, 1], [], [0], [0, 0, 0, 0]) (3, 10) 0
     = (Inr ((Map.empty(''loss'' \<mapsto> 9))(''mae'' \<mapsto> 3), [1, 0], [], [1], [9, 1, 3, 1]), 0)"
  by (simp add: train_step_lower_def lower_level_linear_model_def linear_model_def
      keras_model.extend_def lower_level_model.fields_def unit_gradients_def
      compute_loss_and_updates_lower_def mean_metric_def mean_absolute_error_def
      act_bind_def act_return_def)

text \<open>
  Both training steps at the linear model: the gradients are the ones the stand-in
  for \<open>jax.value_and_grad\<close> reports, and the new variables are the optimizer's.
\<close>

theorem gradients_and_updates_come_from_the_framework_witness:
  "train_step unit_gradients (linear_model [mean_metric ''loss'', mean_absolute_error ''mae''])
       ([2, 1], [], [0], [0, 0, 0, 0]) (3, 10) 0
     = (Inr (3, [1, 0], [], [1], [9, 1, 3, 1]), 0)
   \<and> train_step_lower unit_gradients lower_level_linear_model
       ([2, 1], [], [0], [0, 0, 0, 0]) (3, 10) 0
     = (Inr ((Map.empty(''loss'' \<mapsto> 9))(''mae'' \<mapsto> 3), [1, 0], [], [1], [9, 1, 3, 1]), 0)
   \<and> (\<exists>loss y_pred grads s1 s2.
          unit_gradients
            (compute_loss_and_updates
               (linear_model [mean_metric ''loss'', mean_absolute_error ''mae'']))
            [2, 1] [] 3 10 True 0 = (Inr ((loss, (y_pred, [])), grads), s1)
        \<and> optimizer_stateless_apply
            (linear_model [mean_metric ''loss'', mean_absolute_error ''mae'']) [0] grads [2, 1] s1
            = (Inr ([1, 0], [1]), s2))
   \<and> (\<exists>loss y_pred grads s1 s2.
          unit_gradients (compute_loss_and_updates_lower lower_level_linear_model)
            [2, 1] [] 3 10 True 0 = (Inr ((loss, (y_pred, [])), grads), s1)
        \<and> optimizer_stateless_apply lower_level_linear_model [0] grads [2, 1] s1
            = (Inr ([1, 0], [1]), s2))"
proof -
  have a: "train_step unit_gradients
       (linear_model [mean_metric ''loss'', mean_absolute_error ''mae''])
       ([2, 1], [], [0], [0, 0, 0, 0]) (3, 10) 0
     = (Inr (3, [1, 0], [], [1], [9, 1, 3, 1]), 0)"
    by code_simp
  note b = lower_logs
  note t = gradients_and_updates_come_from_the_framework[
      where vg = unit_gradients
        and self = "linear_model [mean_metric ''loss'', mean_absolute_error ''mae'']"
        and self_lower = lower_level_linear_model
        and tv = "[2, 1]" and ntv = "[]" and ov = "[0]" and mv = "[0, 0, 0, 0]"
        and x = 3 and y = 10 and s = 0 and logs = 3
        and logs_lower = "(Map.empty(''loss'' \<mapsto> 9))(''mae'' \<mapsto> 3)"
        and tv' = "[1, 0]" and ntv' = "[]" and ov' = "[1]" and new_mv = "[9, 1, 3, 1]"
        and s' = 0]
  from t a b show ?thesis by blast
qed

subsection \<open>Purity of the steps\<close>













lemma compute_loss_and_updates_Inr_iff:
  "compute_loss_and_updates self tv ntv x y training s = (Inr (loss, (y_pred, ntv')), s') \<longleftrightarrow>
     (\<exists>s1. stateless_call self tv ntv x training s = (Inr (y_pred, ntv'), s1)
         \<and> compute_loss self x y y_pred s1 = (Inr loss, s'))"
  by (auto simp: compute_loss_and_updates_def act_bind_Inr_iff act_return_iff)
















subsection \<open>Where a step can fail\<close>







subsection \<open>Where a cell can fail\<close>



















subsection \<open>The metric update\<close>

lemma compute_loss_and_updates_lower_Inr_iff:
  "compute_loss_and_updates_lower self tv ntv x y training s = (Inr (loss, (y_pred, ntv')), s') \<longleftrightarrow>
     (\<exists>s1. stateless_call self tv ntv x training s = (Inr (y_pred, ntv'), s1)
         \<and> loss_fn self y y_pred s1 = (Inr loss, s'))"
  by (auto simp: compute_loss_and_updates_lower_def act_bind_Inr_iff act_return_iff)

lemma metric_loop_slices:
  assumes "update_metrics ms mv loss y y_pred (None, []) s = (Inr (Some logs, new_mv), s')"
  shows "\<exists>us. length us = length ms \<and> new_mv = concat us
          \<and> (\<forall>i<length ms. \<exists>s2 s3.
                stateless_update_state (ms ! i)
                  (slice mv (length (concat (take i us)))
                     (length (concat (take i us)) + length (variables (ms ! i))))
                  (if metric_name (ms ! i) = ''loss'' then [loss] else [y, y_pred]) s2
                = (Inr (us ! i), s3))"
  using update_metrics_slices[OF assms] by simp

text \<open>
  C3 (as amended). The forward pass and the loss (\<open>self.stateless_call\<close> with
  \<open>self.compute_loss\<close>, or \<open>self.loss_fn\<close> in the lower-level variant), the
  gradient computation (\<open>jax.value_and_grad\<close>) and the optimizer step
  (\<open>self.optimizer.stateless_apply\<close>) are single calls into the framework whose
  results are passed on unchanged. The metric update is not: it is a loop written
  in the notebook. The first \<open>train_step\<close> and \<open>test_step\<close> give the \<open>i\<close>-th
  metric the slice of \<open>metrics_variables\<close> that starts where the updated variables
  of the metrics before it end and is \<open>len(metric.variables)\<close> long, pass the loss
  to a metric named \<open>loss\<close> and \<open>y, y_pred\<close> to any other, and concatenate what
  the updates return; the lower-level \<open>train_step\<close> splits \<open>metrics_variables\<close>
  at \<open>len(self.loss_tracker.variables)\<close> between its two metrics, passes the loss
  to the first and \<open>y, y_pred\<close> to the second, and concatenates the two results.
\<close>

theorem metric_update_is_the_notebooks_own_loop:
  "(compute_loss_and_updates self tv ntv x y training s = (Inr (loss, y_pred, ntv'), s') \<longleftrightarrow>
      (\<exists>s1. stateless_call self tv ntv x training s = (Inr (y_pred, ntv'), s1)
         \<and> compute_loss self x y y_pred s1 = (Inr loss, s')))
   \<and> (compute_loss_and_updates_lower self_lower tv ntv x y training s
         = (Inr (loss, y_pred, ntv'), s') \<longleftrightarrow>
      (\<exists>s1. stateless_call self_lower tv ntv x training s = (Inr (y_pred, ntv'), s1)
         \<and> loss_fn self_lower y y_pred s1 = (Inr loss, s')))
   \<and> (train_step vg self (tv, ntv, ov, mv) (x, y) s = (Inr (logs, tv', ntv', ov', new_mv), s') \<longrightarrow>
      (\<exists>loss y_pred grads s1 s2 us.
          vg (compute_loss_and_updates self) tv ntv x y True s
            = (Inr ((loss, (y_pred, ntv')), grads), s1)
        \<and> optimizer_stateless_apply self ov grads tv s1 = (Inr (tv', ov'), s2)
        \<and> length us = length (metrics self) \<and> new_mv = concat us
        \<and> (\<forall>i<length (metrics self). \<exists>s2 s3.
              stateless_update_state (metrics self ! i)
                (slice mv (length (concat (take i us)))
                   (length (concat (take i us)) + length (variables (metrics self ! i))))
                (if metric_name (metrics self ! i) = ''loss'' then [loss] else [y, y_pred]) s2
              = (Inr (us ! i), s3))))
   \<and> (test_step self (tv, ntv, mv) (x, y) s
         = (Inr (eval_logs, eval_tv, eval_ntv, eval_mv), eval_s') \<longrightarrow>
      eval_tv = tv
      \<and> (\<exists>loss y_pred s1 s2 us.
          stateless_call self tv ntv x False s = (Inr (y_pred, eval_ntv), s1)
        \<and> compute_loss self x y y_pred s1 = (Inr loss, s2)
        \<and> length us = length (metrics self) \<and> eval_mv = concat us
        \<and> (\<forall>i<length (metrics self). \<exists>s2 s3.
              stateless_update_state (metrics self ! i)
                (slice mv (length (concat (take i us)))
                   (length (concat (take i us)) + length (variables (metrics self ! i))))
                (if metric_name (metrics self ! i) = ''loss'' then [loss] else [y, y_pred]) s2
              = (Inr (us ! i), s3))))
   \<and> (train_step_lower vg self_lower (tv, ntv, ov, mv) (x, y) s
         = (Inr (logs_lower, tv', ntv', ov', new_mv), s') \<longrightarrow>
      (\<exists>loss y_pred grads s1 s2 u1 u2 s3 s4.
          vg (compute_loss_and_updates_lower self_lower) tv ntv x y True s
            = (Inr ((loss, (y_pred, ntv')), grads), s1)
        \<and> optimizer_stateless_apply self_lower ov grads tv s1 = (Inr (tv', ov'), s2)
        \<and> stateless_update_state (loss_tracker self_lower)
             (take (length (variables (loss_tracker self_lower))) mv) [loss] s2 = (Inr u1, s3)
        \<and> stateless_update_state (mae_metric self_lower)
             (drop (length (variables (loss_tracker self_lower))) mv) [y, y_pred] s3 = (Inr u2, s4)
        \<and> new_mv = u1 @ u2))"
proof (intro conjI impI)
  show "compute_loss_and_updates self tv ntv x y training s = (Inr (loss, y_pred, ntv'), s') \<longleftrightarrow>
      (\<exists>s1. stateless_call self tv ntv x training s = (Inr (y_pred, ntv'), s1)
         \<and> compute_loss self x y y_pred s1 = (Inr loss, s'))"
    by (rule compute_loss_and_updates_Inr_iff)
next
  show "compute_loss_and_updates_lower self_lower tv ntv x y training s
         = (Inr (loss, y_pred, ntv'), s') \<longleftrightarrow>
      (\<exists>s1. stateless_call self_lower tv ntv x training s = (Inr (y_pred, ntv'), s1)
         \<and> loss_fn self_lower y y_pred s1 = (Inr loss, s'))"
    by (rule compute_loss_and_updates_lower_Inr_iff)
next
  assume "train_step vg self (tv, ntv, ov, mv) (x, y) s = (Inr (logs, tv', ntv', ov', new_mv), s')"
  then obtain loss y_pred grads s1 s2 where
    g: "vg (compute_loss_and_updates self) tv ntv x y True s
          = (Inr ((loss, (y_pred, ntv')), grads), s1)" and
    o: "optimizer_stateless_apply self ov grads tv s1 = (Inr (tv', ov'), s2)" and
    l: "update_metrics (metrics self) mv loss y y_pred (None, []) s2
          = (Inr (Some logs, new_mv), s')"
    unfolding train_step_Inr_iff by blast
  from g o metric_loop_slices[OF l]
  show "\<exists>loss y_pred grads s1 s2 us.
          vg (compute_loss_and_updates self) tv ntv x y True s
            = (Inr ((loss, (y_pred, ntv')), grads), s1)
        \<and> optimizer_stateless_apply self ov grads tv s1 = (Inr (tv', ov'), s2)
        \<and> length us = length (metrics self) \<and> new_mv = concat us
        \<and> (\<forall>i<length (metrics self). \<exists>s2 s3.
              stateless_update_state (metrics self ! i)
                (slice mv (length (concat (take i us)))
                   (length (concat (take i us)) + length (variables (metrics self ! i))))
                (if metric_name (metrics self ! i) = ''loss'' then [loss] else [y, y_pred]) s2
              = (Inr (us ! i), s3))"
    by blast
next
  assume e: "test_step self (tv, ntv, mv) (x, y) s
         = (Inr (eval_logs, eval_tv, eval_ntv, eval_mv), eval_s')"
  then show "eval_tv = tv"
    unfolding test_step_Inr_iff by blast
  from e obtain loss y_pred s1 s2 where
    c: "stateless_call self tv ntv x False s = (Inr (y_pred, eval_ntv), s1)" and
    k: "compute_loss self x y y_pred s1 = (Inr loss, s2)" and
    l: "update_metrics (metrics self) mv loss y y_pred (None, []) s2
          = (Inr (Some eval_logs, eval_mv), eval_s')"
    unfolding test_step_Inr_iff by blast
  from c k metric_loop_slices[OF l]
  show "\<exists>loss y_pred s1 s2 us.
          stateless_call self tv ntv x False s = (Inr (y_pred, eval_ntv), s1)
        \<and> compute_loss self x y y_pred s1 = (Inr loss, s2)
        \<and> length us = length (metrics self) \<and> eval_mv = concat us
        \<and> (\<forall>i<length (metrics self). \<exists>s2 s3.
              stateless_update_state (metrics self ! i)
                (slice mv (length (concat (take i us)))
                   (length (concat (take i us)) + length (variables (metrics self ! i))))
                (if metric_name (metrics self ! i) = ''loss'' then [loss] else [y, y_pred]) s2
              = (Inr (us ! i), s3))"
    by blast
next
  assume "train_step_lower vg self_lower (tv, ntv, ov, mv) (x, y) s
         = (Inr (logs_lower, tv', ntv', ov', new_mv), s')"
  then show "\<exists>loss y_pred grads s1 s2 u1 u2 s3 s4.
          vg (compute_loss_and_updates_lower self_lower) tv ntv x y True s
            = (Inr ((loss, (y_pred, ntv')), grads), s1)
        \<and> optimizer_stateless_apply self_lower ov grads tv s1 = (Inr (tv', ov'), s2)
        \<and> stateless_update_state (loss_tracker self_lower)
             (take (length (variables (loss_tracker self_lower))) mv) [loss] s2 = (Inr u1, s3)
        \<and> stateless_update_state (mae_metric self_lower)
             (drop (length (variables (loss_tracker self_lower))) mv) [y, y_pred] s3 = (Inr u2, s4)
        \<and> new_mv = u1 @ u2"
    unfolding train_step_lower_Inr_iff by blast
qed

lemma lower_train_step_on_distinct_vars:
  "train_step_lower unit_gradients lower_level_linear_model
      ([2, 1], [], [0], [10, 1, 20, 2]) (3, 10) 0
     = (Inr ((Map.empty(''loss'' \<mapsto> 9))(''mae'' \<mapsto> 7), [1, 0], [], [1], [19, 2, 23, 3]), 0)"
  by (simp add: train_step_lower_def lower_level_linear_model_def linear_model_def
      keras_model.extend_def lower_level_model.fields_def unit_gradients_def
      compute_loss_and_updates_lower_def mean_metric_def mean_absolute_error_def
      act_bind_def act_return_def)

text \<open>
  The three steps at the linear model with two metrics, on metric variables that
  tell the slices apart: \<open>[19, 2]\<close> comes from the loss metric on \<open>[10, 1]\<close>,
  \<open>[23, 3]\<close> from the mean absolute error on \<open>[20, 2]\<close>.
\<close>

theorem metric_update_is_the_notebooks_own_loop_witness:
  "train_step unit_gradients (linear_model [mean_metric ''loss'', mean_absolute_error ''mae''])
       ([2, 1], [], [0], [10, 1, 20, 2]) (3, 10) 0
     = (Inr (7, [1, 0], [], [1], [19, 2, 23, 3]), 0)
   \<and> test_step (linear_model [mean_metric ''loss'', mean_absolute_error ''mae''])
       ([2, 1], [], [10, 1, 20, 2]) (3, 10) 0
     = (Inr (7, [2, 1], [], [19, 2, 23, 3]), 0)
   \<and> train_step_lower unit_gradients lower_level_linear_model
       ([2, 1], [], [0], [10, 1, 20, 2]) (3, 10) 0
     = (Inr ((Map.empty(''loss'' \<mapsto> 9))(''mae'' \<mapsto> 7), [1, 0], [], [1], [19, 2, 23, 3]), 0)
   \<and> (\<exists>loss y_pred grads s1 s2 us.
          unit_gradients
            (compute_loss_and_updates
               (linear_model [mean_metric ''loss'', mean_absolute_error ''mae'']))
            [2, 1] [] 3 10 True 0 = (Inr ((loss, (y_pred, [])), grads), s1)
        \<and> optimizer_stateless_apply
            (linear_model [mean_metric ''loss'', mean_absolute_error ''mae'']) [0] grads [2, 1] s1
            = (Inr ([1, 0], [1]), s2)
        \<and> length us
            = length (metrics (linear_model [mean_metric ''loss'', mean_absolute_error ''mae'']))
        \<and> [19, 2, 23, 3] = concat us
        \<and> (\<forall>i<length (metrics (linear_model [mean_metric ''loss'', mean_absolute_error ''mae''])).
              \<exists>s2 s3.
                stateless_update_state
                  (metrics (linear_model [mean_metric ''loss'', mean_absolute_error ''mae'']) ! i)
                  (slice [10, 1, 20, 2] (length (concat (take i us)))
                     (length (concat (take i us))
                      + length (variables
                          (metrics (linear_model
                             [mean_metric ''loss'', mean_absolute_error ''mae'']) ! i))))
                  (if metric_name
                        (metrics (linear_model
                           [mean_metric ''loss'', mean_absolute_error ''mae'']) ! i) = ''loss''
                   then [loss] else [10, y_pred]) s2
                = (Inr (us ! i), s3)))
   \<and> ([2, 1] = [2, 1 :: int]
      \<and> (\<exists>loss y_pred s1 s2 us.
          stateless_call (linear_model [mean_metric ''loss'', mean_absolute_error ''mae''])
            [2, 1] [] 3 False 0 = (Inr (y_pred, []), s1)
        \<and> compute_loss (linear_model [mean_metric ''loss'', mean_absolute_error ''mae''])
            3 10 y_pred s1 = (Inr loss, s2)
        \<and> length us
            = length (metrics (linear_model [mean_metric ''loss'', mean_absolute_error ''mae'']))
        \<and> [19, 2, 23, 3] = concat us
        \<and> (\<forall>i<length (metrics (linear_model [mean_metric ''loss'', mean_absolute_error ''mae''])).
              \<exists>s2 s3.
                stateless_update_state
                  (metrics (linear_model [mean_metric ''loss'', mean_absolute_error ''mae'']) ! i)
                  (slice [10, 1, 20, 2] (length (concat (take i us)))
                     (length (concat (take i us))
                      + length (variables
                          (metrics (linear_model
                             [mean_metric ''loss'', mean_absolute_error ''mae'']) ! i))))
                  (if metric_name
                        (metrics (linear_model
                           [mean_metric ''loss'', mean_absolute_error ''mae'']) ! i) = ''loss''
                   then [loss] else [10, y_pred]) s2
                = (Inr (us ! i), s3))))
   \<and> (\<exists>loss y_pred grads s1 s2 u1 u2 s3 s4.
          unit_gradients (compute_loss_and_updates_lower lower_level_linear_model)
            [2, 1] [] 3 10 True 0 = (Inr ((loss, (y_pred, [])), grads), s1)
        \<and> optimizer_stateless_apply lower_level_linear_model [0] grads [2, 1] s1
            = (Inr ([1, 0], [1]), s2)
        \<and> stateless_update_state (loss_tracker lower_level_linear_model)
             (take (length (variables (loss_tracker lower_level_linear_model))) [10, 1, 20, 2])
             [loss] s2 = (Inr u1, s3)
        \<and> stateless_update_state (mae_metric lower_level_linear_model)
             (drop (length (variables (loss_tracker lower_level_linear_model))) [10, 1, 20, 2])
             [10, y_pred] s3 = (Inr u2, s4)
        \<and> [19, 2, 23, 3] = u1 @ u2)
   \<and> slice [10, 1, 20, 2 :: int] 0 2 = [10, 1] \<and> slice [10, 1, 20, 2 :: int] 2 4 = [20, 2]"
proof -
  note t = metric_update_is_the_notebooks_own_loop[
      where vg = unit_gradients
        and self = "linear_model [mean_metric ''loss'', mean_absolute_error ''mae'']"
        and self_lower = lower_level_linear_model
        and tv = "[2, 1]" and ntv = "[]" and ov = "[0]" and mv = "[10, 1, 20, 2]"
        and x = 3 and y = 10 and s = 0 and logs = 7
        and logs_lower = "(Map.empty(''loss'' \<mapsto> 9))(''mae'' \<mapsto> 7)"
        and tv' = "[1, 0]" and ntv' = "[]" and ov' = "[1]" and new_mv = "[19, 2, 23, 3]"
        and s' = 0 and eval_logs = 7 and eval_tv = "[2, 1]" and eval_ntv = "[]"
        and eval_mv = "[19, 2, 23, 3]" and eval_s' = 0]
  note t3 = conjunct1[OF conjunct2[OF conjunct2[OF t]]]
  note t4 = conjunct1[OF conjunct2[OF conjunct2[OF conjunct2[OF t]]]]
  note t5 = conjunct2[OF conjunct2[OF conjunct2[OF conjunct2[OF t]]]]
  have sl: "slice [10, 1, 20, 2 :: int] 0 2 = [10, 1]" "slice [10, 1, 20, 2 :: int] 2 4 = [20, 2]"
    by (simp_all add: slice_def)
  show ?thesis
    by (intro conjI two_metrics_train_step_on_distinct_vars
        two_metrics_test_step_on_distinct_vars lower_train_step_on_distinct_vars sl
        mp[OF t3 two_metrics_train_step_on_distinct_vars]
        conjunct1[OF mp[OF t4 two_metrics_test_step_on_distinct_vars]]
        conjunct2[OF mp[OF t4 two_metrics_test_step_on_distinct_vars]]
        mp[OF t5 lower_train_step_on_distinct_vars])
qed

lemma two_metric_train_step:
  "train_step unit_gradients (linear_model [mean_metric ''loss'', mean_absolute_error ''mae''])
       ([2, 1], [], [0], [0, 0, 0, 0]) (3, 10) 0
     = (Inr (3, [1, 0], [], [1], [9, 1, 3, 1]), 0)"
  by code_simp

lemma mean_metric_update_length:
  "fst (stateless_update_state (mean_metric n) vs args s) = Inr u \<Longrightarrow> length u = 2"
  by (auto simp: mean_metric_def act_return_def act_raise_def split: list.splits)

lemma mean_absolute_error_update_length:
  "fst (stateless_update_state (mean_absolute_error n) vs args s) = Inr u \<Longrightarrow> length u = 2"
  by (auto simp: mean_absolute_error_def act_return_def act_raise_def split: list.splits)

text \<open>
  C3 as stated fails for the metric update: at the two-metric model the new metric
  variables \<open>[9, 1, 3, 1]\<close> are not what any one call of a metric's
  \<open>stateless_update_state\<close> returns, on any arguments; they exist only as the
  result of the notebook's loop.
\<close>

theorem metric_update_single_call_counterexample:
  "train_step unit_gradients (linear_model [mean_metric ''loss'', mean_absolute_error ''mae''])
       ([2, 1], [], [0], [0, 0, 0, 0]) (3, 10) 0
     = (Inr (3, [1, 0], [], [1], [9, 1, 3, 1]), 0)
   \<and> \<not> (\<exists>metric vs args s.
          metric \<in> set (metrics (linear_model [mean_metric ''loss'', mean_absolute_error ''mae'']))
        \<and> fst (stateless_update_state metric vs args s) = Inr [9, 1, 3, 1])"
proof -
  have "\<not> (\<exists>metric vs args s.
          metric \<in> set (metrics (linear_model [mean_metric ''loss'', mean_absolute_error ''mae'']))
        \<and> fst (stateless_update_state metric vs args s) = Inr [9, 1, 3, 1])"
  proof
    assume "\<exists>metric vs args s.
          metric \<in> set (metrics (linear_model [mean_metric ''loss'', mean_absolute_error ''mae'']))
        \<and> fst (stateless_update_state metric vs args s) = Inr [9, 1, 3, 1]"
    then obtain metric vs args s where
      m: "metric = mean_metric ''loss'' \<or> metric = mean_absolute_error ''mae''" and
      u: "fst (stateless_update_state metric vs args s) = Inr [9, 1, 3, 1]"
      by (auto simp: linear_model_def)
    from m u have "length [9, 1, 3, 1 :: int] = 2"
      using mean_metric_update_length mean_absolute_error_update_length by blast
    then show False by simp
  qed
  with two_metric_train_step show ?thesis by simp
qed

subsection \<open>Behaviour that is the notebook's own\<close>

lemma test_step_keeps_trainable_variables:
  assumes "test_step self (tv, ntv, mv) data s = (Inr (logs, tv', rest), s')"
  shows "tv' = tv"
proof -
  obtain x y where d: "data = (x, y)" by (cases data)
  obtain ntv' new_mv where r: "rest = (ntv', new_mv)" by (cases rest)
  from assms show ?thesis unfolding d r test_step_Inr_iff by simp
qed

lemma train_step_lower_log_keys:
  assumes "train_step_lower vg self state data s = (Inr (logs, state'), s')"
  shows "dom logs = {metric_name (loss_tracker self), metric_name (mae_metric self)}"
proof -
  obtain tv ntv ov mv where st: "state = (tv, ntv, ov, mv)" by (cases state) auto
  obtain x y where d: "data = (x, y)" by (cases data)
  obtain tv' ntv' ov' new_mv where r: "state' = (tv', ntv', ov', new_mv)"
    by (cases state') auto
  from assms obtain r1 r2 where
    "logs = (Map.empty(metric_name (loss_tracker self) \<mapsto> r1))
              (metric_name (mae_metric self) \<mapsto> r2)"
    unfolding st d r train_step_lower_Inr_iff by blast
  then show ?thesis by auto
qed

text \<open>
  C4 (as amended). The notebook defines the class \<open>CustomModel\<close> with the methods
  \<open>compute_loss_and_updates\<close>, \<open>train_step\<close>, \<open>test_step\<close>, \<open>__init__\<close> and
  \<open>metrics\<close>, and part of their behaviour holds whatever the framework computes,
  so that it can be specified and tested against a stand-in for the framework:
  \<open>test_step\<close>, when it returns, returns the trainable variables it was given;
  the logs of the lower-level \<open>train_step\<close> have exactly the names of its two
  metrics as keys; and the lower-level \<open>metrics\<close> property lists the loss
  tracker, then the mean absolute error.
\<close>

theorem custom_model_methods_have_behaviour_of_their_own:
  "(test_step self (tv, ntv, mv) data s = (Inr (logs, tv', rest), s') \<longrightarrow> tv' = tv)
   \<and> (train_step_lower vg self_lower state data s = (Inr (logs_lower, state'), s') \<longrightarrow>
        dom logs_lower
          = {metric_name (loss_tracker self_lower), metric_name (mae_metric self_lower)})
   \<and> metrics_lower self_lower = [loss_tracker self_lower, mae_metric self_lower]"
  using test_step_keeps_trainable_variables[of self tv ntv mv data s logs tv' rest s']
    train_step_lower_log_keys[of vg self_lower state data s logs_lower state' s']
  by (simp add: metrics_lower_def)

text \<open>
  The same at the stand-in framework: the evaluation step returns the trainable
  variables \<open>[2, 1]\<close> it was given, and the keys of the lower-level logs are
  \<open>loss\<close> and \<open>mae\<close>.
\<close>

theorem custom_model_methods_have_behaviour_of_their_own_witness:
  "test_step (linear_model [mean_metric ''loss'', mean_absolute_error ''mae''])
       ([2, 1], [], [10, 1, 20, 2]) (3, 10) 0
     = (Inr (7, [2, 1], [], [19, 2, 23, 3]), 0)
   \<and> [2, 1] = [2, 1 :: int]
   \<and> train_step_lower unit_gradients lower_level_linear_model
       ([2, 1], [], [0], [10, 1, 20, 2]) (3, 10) 0
     = (Inr ((Map.empty(''loss'' \<mapsto> 9))(''mae'' \<mapsto> 7), [1, 0], [], [1], [19, 2, 23, 3]), 0)
   \<and> dom ((Map.empty(''loss'' \<mapsto> 9 :: int))(''mae'' \<mapsto> 7))
       = {metric_name (loss_tracker lower_level_linear_model),
          metric_name (mae_metric lower_level_linear_model)}
   \<and> metrics_lower lower_level_linear_model
       = [loss_tracker lower_level_linear_model, mae_metric lower_level_linear_model]"
proof -
  note t = custom_model_methods_have_behaviour_of_their_own[
      where vg = unit_gradients
        and self = "linear_model [mean_metric ''loss'', mean_absolute_error ''mae'']"
        and self_lower = lower_level_linear_model
        and tv = "[2, 1]" and ntv = "[]" and mv = "[10, 1, 20, 2]"
        and state = "([2, 1], [], [0], [10, 1, 20, 2])" and data = "(3, 10)" and s = 0
        and logs = 7 and tv' = "[2, 1]" and rest = "([], [19, 2, 23, 3])"
        and logs_lower = "(Map.empty(''loss'' \<mapsto> 9))(''mae'' \<mapsto> 7)"
        and state' = "([1, 0], [], [1], [19, 2, 23, 3])" and s' = 0]
  show ?thesis
    by (intro conjI two_metrics_test_step_on_distinct_vars lower_train_step_on_distinct_vars
        mp[OF conjunct1[OF t] two_metrics_test_step_on_distinct_vars]
        mp[OF conjunct1[OF conjunct2[OF t]] lower_train_step_on_distinct_vars]
        conjunct2[OF conjunct2[OF t]])
qed

lemma metrics_property_of_the_stand_in:
  "metrics_lower lower_level_linear_model = [mean_metric ''loss'', mean_absolute_error ''mae'']"
  by (simp add: metrics_lower_def lower_level_linear_model_def linear_model_def
      keras_model.extend_def lower_level_model.fields_def)

text \<open>
  C4 as stated fails: \<open>metrics\<close>, \<open>test_step\<close> and \<open>train_step\<close> are methods the
  notebook defines, and they can be run against a stand-in for the framework with
  results that are the methods' own. The lower-level \<open>metrics\<close> property returns
  the two metrics that \<open>__init__\<close> stored, in that order, without any call into
  the framework; and the logs of the lower-level \<open>train_step\<close> are a dictionary
  with the keys \<open>loss\<close> and \<open>mae\<close>, which the method builds itself from the two
  results.
\<close>

theorem custom_model_methods_counterexample:
  "metrics_lower lower_level_linear_model = [mean_metric ''loss'', mean_absolute_error ''mae'']
   \<and> train_step_lower unit_gradients lower_level_linear_model
       ([2, 1], [], [0], [0, 0, 0, 0]) (3, 10) 0
     = (Inr ((Map.empty(''loss'' \<mapsto> 9))(''mae'' \<mapsto> 3), [1, 0], [], [1], [9, 1, 3, 1]), 0)
   \<and> stateless_result (mean_metric ''loss'') [9, 1] 0 = (Inr 9, 0)
   \<and> stateless_result (mean_absolute_error ''mae'') [3, 1] 0 = (Inr 3, 0)"
proof -
  have "stateless_result (mean_metric ''loss'') [9, 1] 0 = (Inr 9, 0)"
    "stateless_result (mean_absolute_error ''mae'') [3, 1] 0 = (Inr 3, 0)"
    by (simp_all add: mean_metric_def mean_absolute_error_def act_return_def)
  then show ?thesis
    by (simp only: metrics_property_of_the_stand_in lower_logs simp_thms)
qed

subsection \<open>A Sequential model and the composition of its layers\<close>

lemma and_then_assoc: "and_then (and_then r f) g = and_then r (\<lambda>v. and_then (f v) g)"
  by (cases r) (simp_all add: and_then_def)

lemma and_then_Inr: "and_then (Inr v) f = f v"
  by (simp add: and_then_def)

lemma and_then_Inl: "and_then (Inl e) f = Inl e"
  by (simp add: and_then_def)

lemma sequential_call_Cons:
  "sequential_call (layer # rest) x = and_then (layer x) (sequential_call rest)"
  by (simp add: and_then_def)

lemma foldl_then_layer:
  "foldl then_layer f ls x = and_then (f x) (sequential_call ls)"
proof (induction ls arbitrary: f)
  case Nil
  show ?case by (cases "f x") (simp_all add: and_then_def)
next
  case (Cons l ls)
  have "foldl then_layer f (l # ls) x = and_then (then_layer f l x) (sequential_call ls)"
    by (simp add: Cons.IH)
  also have "\<dots> = and_then (f x) (\<lambda>v. and_then (l v) (sequential_call ls))"
    by (simp add: then_layer_def and_then_assoc)
  also have "\<dots> = and_then (f x) (sequential_call (l # ls))"
    by (simp add: and_then_def split: sum.splits)
  finally show ?case .
qed

text \<open>
  C2. Calling a Sequential model of three layers on an input gives what
  \<open>layer3(layer2(layer1(x)))\<close> gives for the same three layers, whatever the
  layers and the input are, exceptions included; in general a Sequential model of a
  list of layers is the left-to-right composition of the layers. For the guide's
  stack \<open>Dense(2)\<close>, \<open>Dense(3)\<close>, \<open>Dense(4)\<close> on an input of shape (3, 3) both give
  an output of shape (3, 4).
\<close>

theorem sequential_model_is_composition_of_layers:
  "sequential_call [layer1, layer2, layer3] x = call_three_layers layer1 layer2 layer3 x
   \<and> sequential_call ls x = compose_layers ls x
   \<and> sequential_call (map layer_on_shape [Dense 2 Relu, Dense 3 Relu, Dense 4 Linear])
        [Some 3, Some 3] = Inr [Some 3, Some 4]
   \<and> call_three_layers (layer_on_shape (Dense 2 Relu)) (layer_on_shape (Dense 3 Relu))
        (layer_on_shape (Dense 4 Linear)) [Some 3, Some 3] = Inr [Some 3, Some 4]"
proof (intro conjI)
  show "sequential_call [layer1, layer2, layer3] x = call_three_layers layer1 layer2 layer3 x"
    by (simp add: call_three_layers_def and_then_def split: sum.splits)
  show "sequential_call ls x = compose_layers ls x"
    by (simp add: compose_layers_def foldl_then_layer and_then_Inr)
  show "sequential_call (map layer_on_shape [Dense 2 Relu, Dense 3 Relu, Dense 4 Linear])
        [Some 3, Some 3] = Inr [Some 3, Some 4]"
    by (simp add: layer_on_shape_def)
  show "call_three_layers (layer_on_shape (Dense 2 Relu)) (layer_on_shape (Dense 3 Relu))
        (layer_on_shape (Dense 4 Linear)) [Some 3, Some 3] = Inr [Some 3, Some 4]"
    by (simp add: call_three_layers_def layer_on_shape_def and_then_def)
qed

subsection \<open>The snippets of the Sequential guide\<close>



















subsection \<open>Failures are not handled\<close>





end
